theory Spec2Isabelle
  imports Complex_Main
begin

section \<open>Strings and numbers of the host language\<close>

text \<open>
  The card is TypeScript. Its strings are modelled as \<^typ>\<open>string\<close>; the built-in string
  methods the card calls are written out for the ASCII range: \<open>trim\<close> removes the ASCII
  white space characters (tab, line feed, vertical tab, form feed, carriage return, space) at
  both ends, \<open>toLowerCase\<close> and \<open>toUpperCase\<close> map the 26 letters and leave every other
  character as it is.
\<close>

definition is_space :: "char \<Rightarrow> bool" where
  "is_space c = (c \<in> set [CHR 0x09, CHR 0x0A, CHR 0x0B, CHR 0x0C, CHR 0x0D, CHR '' ''])"

definition trim :: "string \<Rightarrow> string" where
  "trim s = rev (dropWhile is_space (rev (dropWhile is_space s)))"

definition upper_letters :: string where
  "upper_letters = ''ABCDEFGHIJKLMNOPQRSTUVWXYZ''"

definition lower_letters :: string where
  "lower_letters = ''abcdefghijklmnopqrstuvwxyz''"

definition decimal_digits :: string where
  "decimal_digits = ''0123456789''"

definition toLowerCase :: "string \<Rightarrow> string" where
  "toLowerCase s =
     map (\<lambda>c. case map_of (zip upper_letters lower_letters) c of Some d \<Rightarrow> d | None \<Rightarrow> c) s"

definition toUpperCase :: "string \<Rightarrow> string" where
  "toUpperCase s =
     map (\<lambda>c. case map_of (zip lower_letters upper_letters) c of Some d \<Rightarrow> d | None \<Rightarrow> c) s"

text \<open>
  A value of the host's number type: a finite number, an infinity, or NaN. The conversion
  \<open>Number(text)\<close> of a string to a number is a built-in of the host; the functions below
  take it as the parameter \<open>N\<close>, so that every theorem holds whatever that conversion returns.
\<close>

datatype js_number = Finite rat | PosInfinity | NegInfinity | NaN

type_synonym to_number = "string \<Rightarrow> js_number"

text \<open>Truthiness of an optional string: absent and the empty string are falsy.\<close>

fun truthy :: "string option \<Rightarrow> bool" where
  "truthy None = False"
| "truthy (Some s) = (s \<noteq> [])"

text \<open>\<open>value ?? ""\<close> on an optional string.\<close>

fun or_empty :: "string option \<Rightarrow> string" where
  "or_empty None = []"
| "or_empty (Some s) = s"

text \<open>
  \<open>String(n)\<close> for an integer \<open>n\<close>: its decimal numeral (the host prints integers of
  magnitude below \<open>10^21\<close> this way).
\<close>

fun digits_of_nat :: "nat \<Rightarrow> string" where
  "digits_of_nat n =
     (if n < 10 then [decimal_digits ! n]
      else digits_of_nat (n div 10) @ [decimal_digits ! (n mod 10)])"

definition String_of_int :: "int \<Rightarrow> string" where
  "String_of_int i = (if i < 0 then CHR ''-'' # digits_of_nat (nat (- i)) else digits_of_nat (nat i))"

section \<open>Data of the new-reservation card\<close>

text \<open>
  \<open>type Favorite = { id?: number | string; name?: string; license_plate?: string }\<close>.
  A numeric id is either an integer or not finite (NaN, an infinity).
\<close>

datatype js_id = IdNumber int | IdNotFinite | IdString string

record Favorite =
  fav_id :: "js_id option"
  name :: "string option"
  license_plate :: "string option"

text \<open>\<open>ConfigEntrySummary\<close> of config-entry.ts; a \<open>unique_id\<close> that is absent or null is \<open>None\<close>.\<close>

record ConfigEntrySummary =
  entry_id :: string
  title :: string
  unique_id :: "string option"

record EntityRegistryEntry =
  entity_id :: string
  registry_config_entry_id :: "string option"

record CardConfig =
  card_type :: string
  card_title :: "string option"
  config_entry_id :: "string option"
  favorites_entity :: "string option"

text \<open>
  What the card reads of the host object: whether \<open>hass.user?.is_admin\<close> is truthy and
  whether \<open>hass.callWS\<close> exists. The entity states are not part of the record: the list the
  getter \<open>_favorites\<close> reads from them is the parameter \<open>favs\<close> of the functions below.
\<close>

record HomeAssistant =
  user_is_admin :: bool
  has_callWS :: bool

text \<open>The fields of the class \<open>VisitorParkingNewReservationCard\<close>, without the leading underscore.\<close>

record Card =
  hass :: "HomeAssistant option"
  config :: "CardConfig option"
  favoriteDraft :: string
  nameDraft :: string
  licensePlateDraft :: string
  addToFavorites :: bool
  updateFavorite :: bool
  submitting :: bool
  deletingFavorite :: bool
  updatingFavorite :: bool
  resolvingService :: bool
  resolvedConfigEntryId :: "string option"
  resolvedIdentifier :: "string option"
  entries :: "ConfigEntrySummary list"
  entriesLoaded :: bool
  entityRegistry :: "EntityRegistryEntry list"
  entityRegistryLoaded :: bool
  selectedEntryId :: "string option"
  lastResolveAttempt :: "int option"
  lastResolveEntryId :: "string option"

section \<open>Normalizer and favorite matcher\<close>

definition normalizeName :: "string \<Rightarrow> string" where
  "normalizeName v = toLowerCase (trim v)"

definition normalizePlate :: "string \<Rightarrow> string" where
  "normalizePlate v =
     filter (\<lambda>c. c \<in> set (upper_letters @ decimal_digits)) (toUpperCase (trim v))"

definition favoriteMatchesDraft :: "Favorite \<Rightarrow> string \<Rightarrow> string \<Rightarrow> bool" where
  "favoriteMatchesDraft favorite nm plate =
     (normalizeName (or_empty (name favorite)) = normalizeName nm \<and>
      normalizePlate (or_empty (license_plate favorite)) = normalizePlate plate)"

text \<open>The loop of \<open>_findFavoriteIndexByDraft\<close>: \<open>i\<close> is the index of the head of the list.\<close>

fun findFrom :: "nat \<Rightarrow> Favorite list \<Rightarrow> string \<Rightarrow> string \<Rightarrow> nat option" where
  "findFrom i [] nm plate = None"
| "findFrom i (f # fs) nm plate =
     (if favoriteMatchesDraft f nm plate then Some i else findFrom (Suc i) fs nm plate)"

definition findFavoriteIndexByDraft :: "Favorite list \<Rightarrow> string \<Rightarrow> string \<Rightarrow> nat option" where
  "findFavoriteIndexByDraft favs nm plate =
     (if trim nm = [] \<or> trim plate = [] then None else findFrom 0 favs nm plate)"

section \<open>Selection and action flags\<close>

text \<open>
  The getter \<open>_selectedFavoriteIndex\<close>. It returns a number, which need not be an integer:
  the result is the rational value.
\<close>

definition selectedFavoriteIndex :: "to_number \<Rightarrow> Favorite list \<Rightarrow> Card \<Rightarrow> rat option" where
  "selectedFavoriteIndex N favs s =
     (if favoriteDraft s = [] then None
      else case N (favoriteDraft s) of
             Finite q \<Rightarrow> (if q < 0 \<or> of_nat (length favs) \<le> q then None else Some q)
           | PosInfinity \<Rightarrow> None
           | NegInfinity \<Rightarrow> None
           | NaN \<Rightarrow> None)"

text \<open>
  \<open>this._favorites[index]\<close>: an element for an integer index inside the array, undefined for
  every other number.
\<close>

definition element_at :: "'a list \<Rightarrow> rat \<Rightarrow> 'a option" where
  "element_at xs q =
     (if 0 \<le> q \<and> q < of_nat (length xs) \<and> of_int \<lfloor>q\<rfloor> = q then Some (xs ! nat \<lfloor>q\<rfloor>) else None)"

definition selectedFavorite :: "to_number \<Rightarrow> Favorite list \<Rightarrow> Card \<Rightarrow> Favorite option" where
  "selectedFavorite N favs s =
     (case selectedFavoriteIndex N favs s of None \<Rightarrow> None | Some q \<Rightarrow> element_at favs q)"

definition selectedFavoriteId :: "to_number \<Rightarrow> Favorite list \<Rightarrow> Card \<Rightarrow> string option" where
  "selectedFavoriteId N favs s =
     (case selectedFavorite N favs s of
        None \<Rightarrow> None
      | Some f \<Rightarrow>
          (case fav_id f of
             Some (IdNumber n) \<Rightarrow> Some (String_of_int n)
           | Some (IdString t) \<Rightarrow> (if trim t \<noteq> [] then Some (trim t) else None)
           | Some IdNotFinite \<Rightarrow> None
           | None \<Rightarrow> None))"

definition busy :: "Card \<Rightarrow> bool" where
  "busy s = (submitting s \<or> deletingFavorite s \<or> updatingFavorite s)"

definition draftMatchesExistingFavorite :: "Favorite list \<Rightarrow> Card \<Rightarrow> bool" where
  "draftMatchesExistingFavorite favs s =
     (findFavoriteIndexByDraft favs (nameDraft s) (licensePlateDraft s) \<noteq> None)"

definition selectedFavoriteChanged :: "to_number \<Rightarrow> Favorite list \<Rightarrow> Card \<Rightarrow> bool" where
  "selectedFavoriteChanged N favs s =
     (case selectedFavorite N favs s of
        None \<Rightarrow> False
      | Some sel \<Rightarrow> \<not> favoriteMatchesDraft sel (nameDraft s) (licensePlateDraft s))"

definition selectedFavoriteNameChanged :: "to_number \<Rightarrow> Favorite list \<Rightarrow> Card \<Rightarrow> bool" where
  "selectedFavoriteNameChanged N favs s =
     (case selectedFavorite N favs s of
        None \<Rightarrow> False
      | Some sel \<Rightarrow> normalizeName (or_empty (name sel)) \<noteq> normalizeName (nameDraft s))"

definition selectedFavoritePlateChanged :: "to_number \<Rightarrow> Favorite list \<Rightarrow> Card \<Rightarrow> bool" where
  "selectedFavoritePlateChanged N favs s =
     (case selectedFavorite N favs s of
        None \<Rightarrow> False
      | Some sel \<Rightarrow>
          normalizePlate (or_empty (license_plate sel)) \<noteq> normalizePlate (licensePlateDraft s))"

definition selectedFavoriteChangedBoth :: "to_number \<Rightarrow> Favorite list \<Rightarrow> Card \<Rightarrow> bool" where
  "selectedFavoriteChangedBoth N favs s =
     (selectedFavoriteNameChanged N favs s \<and> selectedFavoritePlateChanged N favs s)"

definition showAddToFavorites :: "to_number \<Rightarrow> Favorite list \<Rightarrow> Card \<Rightarrow> bool" where
  "showAddToFavorites N favs s =
     (if trim (nameDraft s) = [] \<or> trim (licensePlateDraft s) = [] then False
      else if selectedFavorite N favs s \<noteq> None \<and> \<not> selectedFavoriteChangedBoth N favs s then False
      else \<not> draftMatchesExistingFavorite favs s)"

definition draftDuplicatesOtherFavorite :: "to_number \<Rightarrow> Favorite list \<Rightarrow> Card \<Rightarrow> bool" where
  "draftDuplicatesOtherFavorite N favs s =
     (case selectedFavoriteIndex N favs s of
        None \<Rightarrow> False
      | Some selectedIndex \<Rightarrow>
          (case findFavoriteIndexByDraft favs (nameDraft s) (licensePlateDraft s) of
             None \<Rightarrow> False
           | Some matchingIndex \<Rightarrow> of_nat matchingIndex \<noteq> selectedIndex))"

definition offerUpdateFavorite :: "to_number \<Rightarrow> Favorite list \<Rightarrow> Card \<Rightarrow> bool" where
  "offerUpdateFavorite N favs s =
     (if selectedFavorite N favs s = None then False
      else selectedFavoriteChanged N favs s \<and> \<not> selectedFavoriteChangedBoth N favs s)"

definition canUpdateFavorite :: "to_number \<Rightarrow> Favorite list \<Rightarrow> Card \<Rightarrow> bool" where
  "canUpdateFavorite N favs s =
     (if \<not> offerUpdateFavorite N favs s then False
      else if trim (nameDraft s) = [] \<or> trim (licensePlateDraft s) = [] then False
      else \<not> draftDuplicatesOtherFavorite N favs s)"

text \<open>The constant \<open>showDeleteFavorite\<close> of \<open>render\<close>.\<close>

definition showDeleteFavorite :: "to_number \<Rightarrow> Favorite list \<Rightarrow> Card \<Rightarrow> bool" where
  "showDeleteFavorite N favs s =
     (let canDeleteFavorite = (selectedFavoriteId N favs s \<noteq> None)
      in canDeleteFavorite \<and> \<not> offerUpdateFavorite N favs s \<and> \<not> showAddToFavorites N favs s)"

section \<open>Concrete inputs\<close>

text \<open>
  An instance of the host's \<open>Number\<close> on the strings that are decimal numerals, with or
  without a minus sign: the option values \<open>String(index)\<close> of the favorites selector are such
  strings. It instantiates the parameter \<open>N\<close> at concrete inputs; every other string is NaN here.
\<close>

fun value_of_digits :: "nat \<Rightarrow> string \<Rightarrow> nat option" where
  "value_of_digits acc [] = Some acc"
| "value_of_digits acc (c # cs) =
     (case map_of (zip decimal_digits [0, 1, 2, 3, 4, 5, 6, 7, 8, 9]) c of
        None \<Rightarrow> None
      | Some d \<Rightarrow> value_of_digits (10 * acc + d) cs)"

definition Number_decimal :: to_number where
  "Number_decimal t =
     (case t of
        [] \<Rightarrow> Finite 0
      | c # cs \<Rightarrow>
          (if c = CHR ''-'' then
             (if cs = [] then NaN
              else case value_of_digits 0 cs of None \<Rightarrow> NaN | Some n \<Rightarrow> Finite (- of_nat n))
           else case value_of_digits 0 t of None \<Rightarrow> NaN | Some n \<Rightarrow> Finite (of_nat n)))"

text \<open>The field initialisers of the class.\<close>

definition initialCard :: Card where
  "initialCard =
     \<lparr>hass = None, config = None, favoriteDraft = [], nameDraft = [], licensePlateDraft = [],
      addToFavorites = False, updateFavorite = False, submitting = False,
      deletingFavorite = False, updatingFavorite = False, resolvingService = False,
      resolvedConfigEntryId = None, resolvedIdentifier = None, entries = [],
      entriesLoaded = False, entityRegistry = [], entityRegistryLoaded = False,
      selectedEntryId = None, lastResolveAttempt = None, lastResolveEntryId = None\<rparr>"

definition favorite_mom :: Favorite where
  "favorite_mom =
     \<lparr>fav_id = Some (IdNumber 1), name = Some ''Mom'', license_plate = Some ''AB-12-CD''\<rparr>"

definition favorite_dad :: Favorite where
  "favorite_dad =
     \<lparr>fav_id = Some (IdNumber 2), name = Some ''Dad'', license_plate = Some ''XY-99-ZZ''\<rparr>"

text \<open>The same person as \<open>favorite_mom\<close>, written differently.\<close>

definition favorite_mom_again :: Favorite where
  "favorite_mom_again =
     \<lparr>fav_id = Some (IdNumber 3), name = Some '' mom'', license_plate = Some ''ab12cd''\<rparr>"

text \<open>A favorite the provider has given no id yet.\<close>

definition favorite_without_id :: Favorite where
  "favorite_without_id = \<lparr>fav_id = None, name = Some ''Mom'', license_plate = Some ''AB-12-CD''\<rparr>"

text \<open>A favorite that has a plate and no name.\<close>

definition favorite_without_name :: Favorite where
  "favorite_without_name =
     \<lparr>fav_id = Some (IdNumber 4), name = None, license_plate = Some ''AB-12-CD''\<rparr>"

text \<open>A draft: the selector's value, the name field and the plate field.\<close>

definition draft :: "string \<Rightarrow> string \<Rightarrow> string \<Rightarrow> Card" where
  "draft sel nm plate = initialCard\<lparr>favoriteDraft := sel, nameDraft := nm, licensePlateDraft := plate\<rparr>"

text \<open>A second favorite of the same name as \<open>favorite_mom\<close>, with another plate.\<close>

definition favorite_mom_second_car :: Favorite where
  "favorite_mom_second_car =
     \<lparr>fav_id = Some (IdNumber 5), name = Some ''Mom'', license_plate = Some ''XY-99-ZZ''\<rparr>"

section \<open>Identifier of a config entry (config-entry.ts)\<close>

text \<open>
  \<open>parseIdFromTitle\<close> runs the regular expression \<open>\((?<id>[^)]+)\)\s*$\<close> on the title.
  \<open>match_here\<close> is a match that starts at the head of the string: an opening parenthesis,
  the longest run of characters other than the closing parenthesis (it must not be empty),
  the closing parenthesis, and white space up to the end; a shorter run cannot be followed by
  the closing parenthesis. \<open>regex_exec\<close> tries the start positions from left to right.
\<close>

definition match_here :: "string \<Rightarrow> string option" where
  "match_here t =
     (case t of
        [] \<Rightarrow> None
      | c # r \<Rightarrow>
          (if c \<noteq> CHR ''('' then None
           else let g = takeWhile (\<lambda>x. x \<noteq> CHR '')'') r;
                    rest = dropWhile (\<lambda>x. x \<noteq> CHR '')'') r
                in if g = [] then None
                   else (case rest of
                           [] \<Rightarrow> None
                         | _ # w \<Rightarrow> (if list_all is_space w then Some g else None))))"

fun regex_exec :: "string \<Rightarrow> string option" where
  "regex_exec [] = None"
| "regex_exec (c # r) =
     (case match_here (c # r) of Some g \<Rightarrow> Some g | None \<Rightarrow> regex_exec r)"

definition parseIdFromTitle :: "string \<Rightarrow> string option" where
  "parseIdFromTitle t =
     (case regex_exec t of
        None \<Rightarrow> None
      | Some g \<Rightarrow> (if trim g = [] then None else Some (trim g)))"

definition resolveIdentifierFromEntry :: "ConfigEntrySummary \<Rightarrow> string" where
  "resolveIdentifierFromEntry entry =
     (let uniqueId = (case unique_id entry of Some u \<Rightarrow> trim u | None \<Rightarrow> [])
      in if uniqueId \<noteq> [] \<and> toLowerCase uniqueId \<noteq> ''none'' then uniqueId
         else (case parseIdFromTitle (title entry) of
                 Some i \<Rightarrow> i
               | None \<Rightarrow> entry_id entry))"

section \<open>Active entry and identity resolution of the card\<close>

text \<open>
  What the card does to the outside: the calls it starts and the notifications it sends. The
  arguments of a service call are, in this order: \<open>license_plate\<close>, \<open>name\<close> and
  \<open>config_entry_id\<close> of \<open>create_reservation\<close>; \<open>favorite_id\<close>, \<open>name\<close>, \<open>license_plate\<close>
  and \<open>config_entry_id\<close> of \<open>update_favorite\<close>; \<open>name\<close>, \<open>license_plate\<close> and
  \<open>config_entry_id\<close> of \<open>create_favorite\<close>; \<open>favorite_id\<close> and \<open>config_entry_id\<close> of
  \<open>delete_favorite\<close>.
\<close>

datatype service_call =
    CreateReservation string "string option" "string option"
  | UpdateFavorite string string string "string option"
  | CreateFavorite string string "string option"
  | DeleteFavorite string "string option"

datatype effect =
    LoadEntries
  | LoadEntityRegistry
  | ResolveIdFromConfigEntry string
  | CallService service_call
  | Notify string

definition setConfig :: "CardConfig \<Rightarrow> Card \<Rightarrow> Card" where
  "setConfig c s = s\<lparr>config := Some c\<rparr>"

text \<open>\<open>this._config?.config_entry_id\<close>.\<close>

definition configEntryId :: "Card \<Rightarrow> string option" where
  "configEntryId s = (case config s of None \<Rightarrow> None | Some c \<Rightarrow> config_entry_id c)"

definition activeEntryId :: "Card \<Rightarrow> string option" where
  "activeEntryId s =
     (if truthy (configEntryId s) then configEntryId s
      else if truthy (selectedEntryId s) then selectedEntryId s
      else if entriesLoaded s \<and> length (entries s) = 1 then Some (entry_id (entries s ! 0))
      else None)"

definition entryIdentifier :: "Card \<Rightarrow> string option \<Rightarrow> string option" where
  "entryIdentifier s entryId =
     (case entryId of
        None \<Rightarrow> None
      | Some e \<Rightarrow>
          (if e = [] then None
           else (case find (\<lambda>item. entry_id item = e) (entries s) of
                   None \<Rightarrow> None
                 | Some entry \<Rightarrow> Some (resolveIdentifierFromEntry entry))))"

definition setSelectedEntry :: "string option \<Rightarrow> Card \<Rightarrow> Card" where
  "setSelectedEntry entryId s =
     s\<lparr>selectedEntryId := entryId,
       resolvedConfigEntryId := None,
       resolvedIdentifier := None,
       lastResolveAttempt := None,
       lastResolveEntryId := None,
       favoriteDraft := [],
       nameDraft := [],
       licensePlateDraft := [],
       addToFavorites := False,
       updateFavorite := False\<rparr>"

text \<open>The handler of the entry picker: the empty option value selects no entry.\<close>

definition entryChanged :: "string \<Rightarrow> Card \<Rightarrow> Card" where
  "entryChanged v s = setSelectedEntry (if v = [] then None else Some v) s"

text \<open>
  The end of \<open>_loadEntries\<close>: its argument is the list the host returned, or \<open>None\<close> when
  the call was rejected.
\<close>

definition loadEntries_done :: "ConfigEntrySummary list option \<Rightarrow> Card \<Rightarrow> Card" where
  "loadEntries_done result s =
     (let s1 = s\<lparr>entries := (case result of Some es \<Rightarrow> es | None \<Rightarrow> []), entriesLoaded := True\<rparr>
      in if \<not> truthy (configEntryId s1) \<and> \<not> truthy (selectedEntryId s1) \<and> length (entries s1) = 1
         then setSelectedEntry (Some (entry_id (entries s1 ! 0))) s1
         else s1)"

text \<open>
  The second half of \<open>updated\<close>, from the line that reads \<open>_activeEntryId\<close>. The argument
  \<open>changedConfig\<close> is what \<open>changedProps\<close> holds for the key \<open>_config\<close>: \<open>None\<close> when the key
  is absent, otherwise the previous configuration (which may be undefined). \<open>now\<close> is the
  value of \<open>Date.now()\<close>, in milliseconds. Starting \<open>_resolveIdFromConfigEntry\<close> sets the
  flag \<open>_resolvingService\<close> before the first await.
\<close>

definition resolveStep ::
  "CardConfig option option \<Rightarrow> int \<Rightarrow> HomeAssistant \<Rightarrow> string \<Rightarrow> Card \<Rightarrow> effect list \<Rightarrow>
     Card \<times> effect list" where
  "resolveStep changedConfig now h favoritesEntity s fx =
     (case activeEntryId s of
        None \<Rightarrow> (s, fx)
      | Some entryId \<Rightarrow>
          (if entryId = [] \<or> favoritesEntity \<noteq> [] then (s, fx)
           else if truthy (entryIdentifier s (Some entryId)) then
             (s\<lparr>resolvedIdentifier := entryIdentifier s (Some entryId),
                resolvedConfigEntryId := Some entryId\<rparr>, fx)
           else if \<not> user_is_admin h then (s, fx)
           else if \<not> has_callWS h then (s, fx)
           else
             let prevConfigEntryId =
                   (case changedConfig of Some (Some prevConfig) \<Rightarrow> config_entry_id prevConfig | _ \<Rightarrow> None);
                 entryIdChanged = (changedConfig \<noteq> None \<and> prevConfigEntryId \<noteq> Some entryId);
                 s1 = (if entryIdChanged
                       then s\<lparr>resolvedConfigEntryId := None, resolvedIdentifier := None,
                              lastResolveAttempt := None, lastResolveEntryId := None\<rparr>
                       else s)
             in if resolvingService s1 then (s1, fx)
                else if resolvedConfigEntryId s1 = Some entryId then (s1, fx)
                else
                  let lastAttemptRelevant = (lastResolveEntryId s1 = Some entryId);
                      retryDue =
                        (\<not> lastAttemptRelevant \<or>
                         (case lastResolveAttempt s1 of
                            None \<Rightarrow> True
                          | Some t \<Rightarrow> now - t > 30000))
                  in if retryDue
                     then (s1\<lparr>lastResolveAttempt := Some now, lastResolveEntryId := Some entryId,
                              resolvingService := True\<rparr>,
                           fx @ [ResolveIdFromConfigEntry entryId])
                     else (s1, fx)))"

text \<open>The first half of \<open>updated\<close>: the two lists are fetched once, by an administrator.\<close>

definition startLoadEntries :: "HomeAssistant \<Rightarrow> Card \<Rightarrow> Card \<times> effect list" where
  "startLoadEntries h s =
     (if \<not> entriesLoaded s then
        (if \<not> user_is_admin h \<or> \<not> has_callWS h then (s\<lparr>entriesLoaded := True\<rparr>, [])
         else (s, [LoadEntries]))
      else (s, []))"

definition startLoadEntityRegistry :: "HomeAssistant \<Rightarrow> Card \<Rightarrow> Card \<times> effect list" where
  "startLoadEntityRegistry h s =
     (if \<not> entityRegistryLoaded s then
        (if \<not> user_is_admin h \<or> \<not> has_callWS h then (s\<lparr>entityRegistryLoaded := True\<rparr>, [])
         else (s, [LoadEntityRegistry]))
      else (s, []))"

definition updated :: "CardConfig option option \<Rightarrow> int \<Rightarrow> Card \<Rightarrow> Card \<times> effect list" where
  "updated changedConfig now s =
     (case hass s of
        None \<Rightarrow> (s, [])
      | Some h \<Rightarrow>
          (case config s of
             None \<Rightarrow> (s, [])
           | Some c \<Rightarrow>
               let favoritesEntity = trim (or_empty (favorites_entity c));
                   (s1, fx1) = startLoadEntries h s;
                   (s2, fx2) = startLoadEntityRegistry h s1
               in resolveStep changedConfig now h favoritesEntity s2 (fx1 @ fx2)))"

text \<open>
  The end of \<open>_resolveIdFromConfigEntry\<close>: the outcome is \<open>None\<close> when the lookup threw, and
  otherwise what it returned.
\<close>

definition resolveIdFromConfigEntry_done :: "string \<Rightarrow> string option option \<Rightarrow> Card \<Rightarrow> Card" where
  "resolveIdFromConfigEntry_done entryId outcome s =
     (case outcome of
        Some (Some resolved) \<Rightarrow>
          (if resolved \<noteq> []
           then s\<lparr>resolvedIdentifier := Some resolved, resolvedConfigEntryId := Some entryId,
                  resolvingService := False\<rparr>
           else s\<lparr>resolvedIdentifier := None, resolvedConfigEntryId := None,
                  resolvingService := False\<rparr>)
      | _ \<Rightarrow> s\<lparr>resolvedIdentifier := None, resolvedConfigEntryId := None,
               resolvingService := False\<rparr>)"

section \<open>Handlers that call the host's services\<close>

definition syncFavoriteToggles :: "to_number \<Rightarrow> Favorite list \<Rightarrow> Card \<Rightarrow> Card" where
  "syncFavoriteToggles N favs s =
     (if selectedFavorite N favs s \<noteq> None then
        let s1 = (if \<not> showAddToFavorites N favs s then s\<lparr>addToFavorites := False\<rparr> else s)
        in (if \<not> canUpdateFavorite N favs s1 then s1\<lparr>updateFavorite := False\<rparr> else s1)
      else
        let s1 = s\<lparr>updateFavorite := False\<rparr>
        in (if \<not> showAddToFavorites N favs s1 then s1\<lparr>addToFavorites := False\<rparr> else s1))"

text \<open>
  A service call is a promise of the host. Its outcome is given by \<open>svc\<close>: true when the
  promise resolves, false when it rejects. A handler is one step from the state at its start
  to the state at its end. A notification carries the key of its message.
\<close>

type_synonym service = "service_call \<Rightarrow> bool"

text \<open>The guard \<open>!this._activeEntryId && this._entriesLoaded && this._entries.length > 1\<close>.\<close>

definition entrySelectionMissing :: "Card \<Rightarrow> bool" where
  "entrySelectionMissing s =
     (\<not> truthy (activeEntryId s) \<and> entriesLoaded s \<and> length (entries s) > 1)"

text \<open>The spread \<open>...(this._activeEntryId && { config_entry_id: this._activeEntryId })\<close>.\<close>

definition entryArgument :: "Card \<Rightarrow> string option" where
  "entryArgument s = (if truthy (activeEntryId s) then activeEntryId s else None)"

text \<open>
  \<open>_deleteFavorite\<close>. The list \<open>favs'\<close> is what \<open>_favorites\<close> returns once the call has
  resolved.
\<close>

definition deleteFavorite ::
  "to_number \<Rightarrow> Favorite list \<Rightarrow> Favorite list \<Rightarrow> service \<Rightarrow> Card \<Rightarrow> Card \<times> effect list" where
  "deleteFavorite N favs favs' svc s =
     (if hass s = None \<or> config s = None then (s, [])
      else if entrySelectionMissing s then (s, [])
      else (case selectedFavoriteId N favs s of
              None \<Rightarrow> (s, [])
            | Some favoriteId \<Rightarrow>
                let s1 = s\<lparr>deletingFavorite := True\<rparr>;
                    call = DeleteFavorite favoriteId (entryArgument s1)
                in if svc call then
                     ((syncFavoriteToggles N favs' (s1\<lparr>favoriteDraft := [], updateFavorite := False\<rparr>))
                        \<lparr>deletingFavorite := False\<rparr>,
                      [CallService call])
                   else
                     (s1\<lparr>deletingFavorite := False\<rparr>,
                      [CallService call, Notify ''new_reservation_card.could_not_remove_favorite''])))"

text \<open>The follow-up of \<open>_submit\<close> once the reservation exists: the state and what was done.\<close>

definition followUp ::
  "bool \<Rightarrow> bool \<Rightarrow> string option \<Rightarrow> string \<Rightarrow> service \<Rightarrow> Card \<Rightarrow> Card \<times> effect list" where
  "followUp shouldUpdateFavorite shouldAddFavorite selectedId licensePlate svc s =
     (if shouldUpdateFavorite then
        (if trim (nameDraft s) = [] then
           (s, [Notify ''new_reservation_card.favorite_name_required_error''])
         else
           let s1 = s\<lparr>updatingFavorite := True\<rparr>;
               call = UpdateFavorite (or_empty selectedId) (trim (nameDraft s1)) licensePlate
                        (entryArgument s1)
           in if svc call then (s1\<lparr>updatingFavorite := False\<rparr>, [CallService call])
              else (s1\<lparr>updatingFavorite := False\<rparr>,
                    [CallService call, Notify ''new_reservation_card.could_not_update_favorite'']))
      else if shouldAddFavorite then
        (if trim (nameDraft s) = [] then
           (s, [Notify ''new_reservation_card.favorite_name_required_error''])
         else
           let call = CreateFavorite (trim (nameDraft s)) licensePlate (entryArgument s)
           in if svc call then (s, [CallService call])
              else (s, [CallService call, Notify ''new_reservation_card.could_not_save_favorite'']))
      else (s, []))"

definition submit :: "to_number \<Rightarrow> Favorite list \<Rightarrow> service \<Rightarrow> Card \<Rightarrow> Card \<times> effect list" where
  "submit N favs svc s =
     (if hass s = None \<or> config s = None then (s, [])
      else if entrySelectionMissing s then (s, [])
      else
        let licensePlate = trim (licensePlateDraft s)
        in if licensePlate = [] then
             (s, [Notify ''new_reservation_card.license_plate_required_error''])
           else
             let selectedId = selectedFavoriteId N favs s;
                 shouldUpdateFavorite =
                   (truthy selectedId \<and> updateFavorite s \<and> canUpdateFavorite N favs s \<and>
                    selectedFavoriteChanged N favs s);
                 shouldAddFavorite = (addToFavorites s \<and> showAddToFavorites N favs s);
                 s1 = s\<lparr>submitting := True\<rparr>;
                 reservation =
                   CreateReservation licensePlate
                     (if trim (nameDraft s1) \<noteq> [] then Some (trim (nameDraft s1)) else None)
                     (entryArgument s1)
             in if \<not> svc reservation then
                  (s1\<lparr>submitting := False\<rparr>,
                   [CallService reservation, Notify ''new_reservation_card.could_not_submit''])
                else
                  let (s2, fx) =
                        followUp shouldUpdateFavorite shouldAddFavorite selectedId licensePlate svc s1
                  in (s2\<lparr>favoriteDraft := [], nameDraft := [], licensePlateDraft := [],
                         addToFavorites := False, updateFavorite := False, submitting := False\<rparr>,
                      CallService reservation # fx))"

text \<open>The draft state: name, plate, favorite selection and the two toggles.\<close>

definition draftState :: "Card \<Rightarrow> string \<times> string \<times> string \<times> bool \<times> bool" where
  "draftState s =
     (nameDraft s, licensePlateDraft s, favoriteDraft s, addToFavorites s, updateFavorite s)"

section \<open>Concrete cards and entries\<close>

definition admin_host :: HomeAssistant where
  "admin_host = \<lparr>user_is_admin = True, has_callWS = True\<rparr>"

text \<open>A card configuration with a title and, when given, a pinned config entry.\<close>

definition card_config :: "string \<Rightarrow> string option \<Rightarrow> CardConfig" where
  "card_config t e =
     \<lparr>card_type = ''custom:visitor-parking-new-reservation-card'', card_title = Some t,
      config_entry_id = e, favorites_entity = None\<rparr>"

definition entry_declared :: ConfigEntrySummary where
  "entry_declared = \<lparr>entry_id = ''e1'', title = ''The Hague (123)'', unique_id = Some ''42''\<rparr>"

text \<open>An entry whose \<open>unique_id\<close> is the text None.\<close>

definition entry_none_text :: ConfigEntrySummary where
  "entry_none_text = \<lparr>entry_id = ''e2'', title = ''The Hague (123)'', unique_id = Some ''None''\<rparr>"

text \<open>A card of an administrator that has loaded the one entry \<open>entry_declared\<close>.\<close>

definition card_one_entry :: Card where
  "card_one_entry =
     initialCard\<lparr>hass := Some admin_host, config := Some (card_config ''Parking'' None),
       entries := [entry_declared], entriesLoaded := True, entityRegistryLoaded := True\<rparr>"

text \<open>
  A card of an administrator whose picker has selected the entry A. The identifier 123 of A
  was cached while A was in the list of entries; a later fetch of the list was rejected and
  left the list empty. The title of the card is then edited twice in the dashboard editor,
  and each edit replaces the configuration: the cycle after the first edit runs at time 1000
  and starts a lookup, which fails; the cycle after the second edit runs at time 11000.
\<close>

definition card_selected_A :: Card where
  "card_selected_A =
     initialCard\<lparr>hass := Some admin_host, config := Some (card_config ''Parking'' None),
       entriesLoaded := True, entityRegistryLoaded := True, selectedEntryId := Some ''A'',
       resolvedConfigEntryId := Some ''A'', resolvedIdentifier := Some ''123''\<rparr>"

definition card_first_edit :: Card where
  "card_first_edit = setConfig (card_config ''Parking 1'' None) card_selected_A"

definition card_lookup_failed :: Card where
  "card_lookup_failed =
     resolveIdFromConfigEntry_done ''A'' None
       (fst (updated (Some (Some (card_config ''Parking'' None))) 1000 card_first_edit))"

definition card_second_edit :: Card where
  "card_second_edit = setConfig (card_config ''Parking 12'' None) card_lookup_failed"

text \<open>
  A card pinned to the entry A by its configuration, with the favorite at index 0 selected
  and the update toggle set; the configuration is then replaced by one that pins entry B.
\<close>

definition card_pinned_A :: Card where
  "card_pinned_A =
     initialCard\<lparr>hass := Some admin_host, config := Some (card_config ''Parking'' (Some ''A'')),
       entriesLoaded := True, entityRegistryLoaded := True,
       favoriteDraft := ''0'', nameDraft := ''Mom'', licensePlateDraft := ''XY-99-ZZ'',
       updateFavorite := True\<rparr>"

definition card_repinned_B :: Card where
  "card_repinned_B = setConfig (card_config ''Parking'' (Some ''B'')) card_pinned_A"

text \<open>A host that accepts the reservation and rejects every call about a favorite.\<close>

definition reservations_only :: service where
  "reservations_only call = (case call of CreateReservation _ _ _ \<Rightarrow> True | _ \<Rightarrow> False)"

text \<open>A host that rejects every call.\<close>

definition rejects_all :: service where
  "rejects_all call = False"

section \<open>The matcher returns the first match\<close>

lemma findFrom_Some:
  "findFrom i fs nm pl = Some k \<Longrightarrow>
     i \<le> k \<and> k - i < length fs \<and> favoriteMatchesDraft (fs ! (k - i)) nm pl \<and>
     (\<forall>j < k - i. \<not> favoriteMatchesDraft (fs ! j) nm pl)"
proof (induction fs arbitrary: i)
  case Nil
  then show ?case by simp
next
  case (Cons f fs)
  show ?case
  proof (cases "favoriteMatchesDraft f nm pl")
    case True
    with Cons.prems show ?thesis by simp
  next
    case False
    with Cons.prems have r: "findFrom (Suc i) fs nm pl = Some k" by simp
    from Cons.IH[OF r] have a: "Suc i \<le> k" and b: "k - Suc i < length fs"
      and c: "favoriteMatchesDraft (fs ! (k - Suc i)) nm pl"
      and d: "\<forall>j < k - Suc i. \<not> favoriteMatchesDraft (fs ! j) nm pl" by auto
    from a have e: "k - i = Suc (k - Suc i)" by arith
    have "\<forall>j < k - i. \<not> favoriteMatchesDraft ((f # fs) ! j) nm pl"
    proof (intro allI impI)
      fix j assume "j < k - i"
      then show "\<not> favoriteMatchesDraft ((f # fs) ! j) nm pl"
        using False d e by (cases j) auto
    qed
    with a b c e show ?thesis by simp
  qed
qed

lemma findFrom_None:
  "(findFrom i fs nm pl = None) = (\<forall>j < length fs. \<not> favoriteMatchesDraft (fs ! j) nm pl)"
proof (induction fs arbitrary: i)
  case Nil
  then show ?case by simp
next
  case (Cons f fs)
  show ?case
  proof (cases "favoriteMatchesDraft f nm pl")
    case True
    then show ?thesis by auto
  next
    case False
    have "(\<forall>j < length (f # fs). \<not> favoriteMatchesDraft ((f # fs) ! j) nm pl) =
          (\<forall>j < length fs. \<not> favoriteMatchesDraft (fs ! j) nm pl)"
      using False by (auto simp: nth_Cons split: nat.splits)
    with False Cons.IH[of "Suc i"] show ?thesis by simp
  qed
qed

lemma findFrom_first:
  "k < length fs \<Longrightarrow> favoriteMatchesDraft (fs ! k) nm pl \<Longrightarrow>
   \<forall>j < k. \<not> favoriteMatchesDraft (fs ! j) nm pl \<Longrightarrow> findFrom i fs nm pl = Some (i + k)"
proof (induction fs arbitrary: i k)
  case Nil
  then show ?case by simp
next
  case (Cons f fs)
  show ?case
  proof (cases k)
    case 0
    with Cons.prems show ?thesis by simp
  next
    case (Suc k')
    with Cons.prems have nf: "\<not> favoriteMatchesDraft f nm pl" by auto
    have "findFrom (Suc i) fs nm pl = Some (Suc i + k')"
    proof (rule Cons.IH)
      show "k' < length fs" using Cons.prems Suc by simp
      show "favoriteMatchesDraft (fs ! k') nm pl" using Cons.prems Suc by simp
      show "\<forall>j<k'. \<not> favoriteMatchesDraft (fs ! j) nm pl"
        using Cons.prems(3) Suc by auto
    qed
    with nf Suc show ?thesis by simp
  qed
qed

lemma findFrom_0_Some_iff:
  "(findFrom 0 favs nm pl = Some i) =
     (i < length favs \<and> favoriteMatchesDraft (favs ! i) nm pl \<and>
      (\<forall>j < i. \<not> favoriteMatchesDraft (favs ! j) nm pl))"
  using findFrom_Some[of 0 favs nm pl i] findFrom_first[of i favs nm pl 0] by auto

lemma favoriteMatchesDraft_self:
  "favoriteMatchesDraft f (or_empty (name f)) (or_empty (license_plate f))"
  by (simp add: favoriteMatchesDraft_def)

text \<open>
  The tests for a filled-in field look at the trimmed text, not at the normalized one: a
  plate of two dashes counts as filled in and normalizes to the empty plate.
\<close>

lemma plate_of_dashes: "trim ''--'' \<noteq> [] \<and> normalizePlate ''--'' = []"
  by code_simp

text \<open>A selected favorite is the element of the list at the selected index.\<close>

lemma selectedFavorite_Some:
  "selectedFavorite N favs s = Some f \<Longrightarrow>
     \<exists>i < length favs. selectedFavoriteIndex N favs s = Some (of_nat i) \<and> f = favs ! i"
proof -
  assume a: "selectedFavorite N favs s = Some f"
  then obtain q where q: "selectedFavoriteIndex N favs s = Some q" and e: "element_at favs q = Some f"
    by (auto simp: selectedFavorite_def split: option.splits)
  from e have r: "0 \<le> q" "q < of_nat (length favs)" "of_int \<lfloor>q\<rfloor> = q" and f: "f = favs ! nat \<lfloor>q\<rfloor>"
    by (auto simp: element_at_def split: if_splits)
  from r have "of_nat (nat \<lfloor>q\<rfloor>) = q"
    by (metis of_int_of_nat_eq of_nat_nat zero_le_floor)
  moreover from this r(2) have "nat \<lfloor>q\<rfloor> < length favs"
    by (metis of_nat_less_iff)
  ultimately show ?thesis using q f by auto
qed

section \<open>Claims about the action flags\<close>

text \<open>
  C1. For every draft state (name text, plate text, selected favorite, favorites list), at most
  one of the derived flags \<open>showAdd\<close> (the getter \<open>_showAddToFavorites\<close>) and \<open>showUpdate\<close>
  (the getter \<open>_offerUpdateFavorite\<close>) is true.
\<close>

theorem C1_add_and_update_exclusive:
  "\<not> (showAddToFavorites N favs s \<and> offerUpdateFavorite N favs s)"
  by (auto simp: showAddToFavorites_def offerUpdateFavorite_def split: if_splits)

text \<open>
  With the favorite Mom selected and only the plate edited, the update is offered and the
  addition is not.
\<close>

theorem C1_add_and_update_exclusive_witness:
  "offerUpdateFavorite Number_decimal [favorite_mom] (draft ''0'' ''Mom'' ''XY-99-ZZ'') \<and>
   \<not> showAddToFavorites Number_decimal [favorite_mom] (draft ''0'' ''Mom'' ''XY-99-ZZ'')"
proof -
  have u: "offerUpdateFavorite Number_decimal [favorite_mom] (draft ''0'' ''Mom'' ''XY-99-ZZ'')"
    by code_simp
  with C1_add_and_update_exclusive
    [of Number_decimal "[favorite_mom]" "draft ''0'' ''Mom'' ''XY-99-ZZ''"]
  show ?thesis by blast
qed


text \<open>
  C2, as amended. The claim reads: the delete action is shown exactly when a favorite is
  selected and neither \<open>showUpdate\<close> nor \<open>showAdd\<close> is true. The card asks for more than a
  selection: the delete action is shown exactly when the selected favorite has a usable id
  (a finite number, or a string that is not blank) and neither \<open>showUpdate\<close> nor \<open>showAdd\<close>
  is true.
\<close>

theorem C2_delete_needs_usable_id:
  "showDeleteFavorite N favs s =
     ((\<exists>f. selectedFavorite N favs s = Some f \<and>
           ((\<exists>n. fav_id f = Some (IdNumber n)) \<or>
            (\<exists>t. fav_id f = Some (IdString t) \<and> trim t \<noteq> []))) \<and>
      \<not> offerUpdateFavorite N favs s \<and> \<not> showAddToFavorites N favs s)"
proof -
  have "(selectedFavoriteId N favs s \<noteq> None) =
          (\<exists>f. selectedFavorite N favs s = Some f \<and>
             ((\<exists>n. fav_id f = Some (IdNumber n)) \<or>
              (\<exists>t. fav_id f = Some (IdString t) \<and> trim t \<noteq> [])))"
    by (auto simp: selectedFavoriteId_def split: option.splits js_id.splits if_splits)
  then show ?thesis by (simp add: showDeleteFavorite_def)
qed

text \<open>The favorite Mom with id 1, selected and unchanged: the delete action is shown.\<close>

theorem C2_delete_needs_usable_id_witness:
  "showDeleteFavorite Number_decimal [favorite_mom] (draft ''0'' ''Mom'' ''AB12CD'') \<and>
   selectedFavorite Number_decimal [favorite_mom] (draft ''0'' ''Mom'' ''AB12CD'') = Some favorite_mom \<and>
   fav_id favorite_mom = Some (IdNumber 1)"
proof -
  have a: "selectedFavorite Number_decimal [favorite_mom] (draft ''0'' ''Mom'' ''AB12CD'')
             = Some favorite_mom"
    by code_simp
  have b: "fav_id favorite_mom = Some (IdNumber 1)"
    by (simp add: favorite_mom_def)
  have c: "\<not> offerUpdateFavorite Number_decimal [favorite_mom] (draft ''0'' ''Mom'' ''AB12CD'')"
    by code_simp
  have d: "\<not> showAddToFavorites Number_decimal [favorite_mom] (draft ''0'' ''Mom'' ''AB12CD'')"
    by code_simp
  from a b c d
    C2_delete_needs_usable_id [of Number_decimal "[favorite_mom]" "draft ''0'' ''Mom'' ''AB12CD''"]
  show ?thesis by simp
qed

text \<open>
  The claim as it is written fails for a selected favorite without an id: it is selected,
  neither flag is true, and the delete action is not shown.
\<close>

theorem C2_counterexample:
  "\<not> (showDeleteFavorite Number_decimal [favorite_without_id] (draft ''0'' ''Mom'' ''AB12CD'') =
        (selectedFavorite Number_decimal [favorite_without_id] (draft ''0'' ''Mom'' ''AB12CD'') \<noteq> None \<and>
         \<not> offerUpdateFavorite Number_decimal [favorite_without_id] (draft ''0'' ''Mom'' ''AB12CD'') \<and>
         \<not> showAddToFavorites Number_decimal [favorite_without_id] (draft ''0'' ''Mom'' ''AB12CD'')))"
  by code_simp

text \<open>
  C3, as amended. The claim reads: the update action is enabled exactly when \<open>showUpdate\<close> is
  true, the draft name and plate are both non-empty, and the draft does not match a favorite
  at an index different from the selected one. The card tests the two fields after trimming:
  the update action is enabled exactly when \<open>showUpdate\<close> is true, the draft name and plate
  are both non-empty after trimming white space, and no favorite at an index different from
  the selected one matches the draft by normalized name and plate.
\<close>

theorem C3_update_enabled:
  "canUpdateFavorite N favs s =
     (offerUpdateFavorite N favs s \<and>
      trim (nameDraft s) \<noteq> [] \<and> trim (licensePlateDraft s) \<noteq> [] \<and>
      \<not> (\<exists>j < length favs.
            selectedFavoriteIndex N favs s \<noteq> Some (of_nat j) \<and>
            favoriteMatchesDraft (favs ! j) (nameDraft s) (licensePlateDraft s)))"
proof (cases "offerUpdateFavorite N favs s \<and>
               trim (nameDraft s) \<noteq> [] \<and> trim (licensePlateDraft s) \<noteq> []")
  case False
  then show ?thesis by (auto simp: canUpdateFavorite_def)
next
  case True
  then obtain sel where sel: "selectedFavorite N favs s = Some sel"
    and changed: "\<not> favoriteMatchesDraft sel (nameDraft s) (licensePlateDraft s)"
    by (auto simp: offerUpdateFavorite_def selectedFavoriteChanged_def
             split: if_splits option.splits)
  from selectedFavorite_Some[OF sel] obtain i where i: "i < length favs"
    and idx: "selectedFavoriteIndex N favs s = Some (of_nat i)" and at: "sel = favs ! i"
    by blast
  let ?M = "\<lambda>j. favoriteMatchesDraft (favs ! j) (nameDraft s) (licensePlateDraft s)"
  have find: "findFavoriteIndexByDraft favs (nameDraft s) (licensePlateDraft s) =
                findFrom 0 favs (nameDraft s) (licensePlateDraft s)"
    using True by (simp add: findFavoriteIndexByDraft_def)
  have not_i: "\<not> ?M i" using changed at by simp
  have dup: "draftDuplicatesOtherFavorite N favs s = (\<exists>j < length favs. ?M j)"
  proof (cases "findFrom 0 favs (nameDraft s) (licensePlateDraft s)")
    case None
    then show ?thesis
      using find idx findFrom_None[of 0 favs "nameDraft s" "licensePlateDraft s"]
      by (simp add: draftDuplicatesOtherFavorite_def)
  next
    case (Some m)
    from findFrom_Some[OF Some] have m: "m < length favs" "?M m" by auto
    with not_i have "m \<noteq> i" by auto
    then have "(of_nat m :: rat) \<noteq> of_nat i" by simp
    with Some find idx m show ?thesis
      by (auto simp: draftDuplicatesOtherFavorite_def)
  qed
  have "(\<exists>j < length favs. selectedFavoriteIndex N favs s \<noteq> Some (of_nat j) \<and> ?M j) =
        (\<exists>j < length favs. ?M j)"
  proof
    assume "\<exists>j < length favs. selectedFavoriteIndex N favs s \<noteq> Some (of_nat j) \<and> ?M j"
    then show "\<exists>j < length favs. ?M j" by blast
  next
    assume "\<exists>j < length favs. ?M j"
    then obtain j where j: "j < length favs" "?M j" by blast
    with not_i have "j \<noteq> i" by auto
    then have "(of_nat i :: rat) \<noteq> of_nat j" by simp
    with idx j show "\<exists>j < length favs. selectedFavoriteIndex N favs s \<noteq> Some (of_nat j) \<and> ?M j"
      by auto
  qed
  with dup True show ?thesis by (simp add: canUpdateFavorite_def)
qed

text \<open>
  Mom selected and her plate edited: the update is enabled while no other favorite has that
  name and plate, and disabled once one has.
\<close>

theorem C3_update_enabled_witness:
  "canUpdateFavorite Number_decimal [favorite_mom] (draft ''0'' ''Mom'' ''XY-99-ZZ'') \<and>
   \<not> canUpdateFavorite Number_decimal [favorite_mom, favorite_mom_second_car]
       (draft ''0'' ''Mom'' ''XY-99-ZZ'') \<and>
   \<not> (\<exists>j < length [favorite_mom].
         selectedFavoriteIndex Number_decimal [favorite_mom] (draft ''0'' ''Mom'' ''XY-99-ZZ'')
           \<noteq> Some (of_nat j) \<and>
         favoriteMatchesDraft ([favorite_mom] ! j)
           (nameDraft (draft ''0'' ''Mom'' ''XY-99-ZZ''))
           (licensePlateDraft (draft ''0'' ''Mom'' ''XY-99-ZZ'')))"
proof -
  have a: "canUpdateFavorite Number_decimal [favorite_mom] (draft ''0'' ''Mom'' ''XY-99-ZZ'')"
    by code_simp
  have b: "\<not> canUpdateFavorite Number_decimal [favorite_mom, favorite_mom_second_car]
               (draft ''0'' ''Mom'' ''XY-99-ZZ'')"
    by code_simp
  from a b C3_update_enabled [of Number_decimal "[favorite_mom]" "draft ''0'' ''Mom'' ''XY-99-ZZ''"]
  show ?thesis by blast
qed

text \<open>
  The claim as it is written fails for a name of one space: \<open>showUpdate\<close> is true, both
  fields are non-empty, no other favorite matches, and the update is not enabled.
\<close>

theorem C3_counterexample:
  "\<not> (canUpdateFavorite Number_decimal [favorite_mom] (draft ''0'' '' '' ''AB-12-CD'') =
        (offerUpdateFavorite Number_decimal [favorite_mom] (draft ''0'' '' '' ''AB-12-CD'') \<and>
         nameDraft (draft ''0'' '' '' ''AB-12-CD'') \<noteq> [] \<and>
         licensePlateDraft (draft ''0'' '' '' ''AB-12-CD'') \<noteq> [] \<and>
         \<not> draftDuplicatesOtherFavorite Number_decimal [favorite_mom]
             (draft ''0'' '' '' ''AB-12-CD'')))"
  by code_simp


section \<open>Claims about the matcher and the selection\<close>

text \<open>
  C7, as amended. The claim reads: \<open>findMatchingIndex\<close> returns none when either draft field
  is empty, and otherwise the smallest index whose favorite's normalized name and plate both
  equal the draft's. The card tests the two fields after trimming: the function returns none
  when either draft field is empty after trimming white space, and otherwise the smallest
  index whose favorite's normalized name and normalized plate both equal the draft's (none
  when there is no such index).
\<close>

theorem C7_first_match:
  "((findFavoriteIndexByDraft favs nm pl = Some i) =
      (trim nm \<noteq> [] \<and> trim pl \<noteq> [] \<and>
       i < length favs \<and> favoriteMatchesDraft (favs ! i) nm pl \<and>
       (\<forall>j < i. \<not> favoriteMatchesDraft (favs ! j) nm pl))) \<and>
   ((findFavoriteIndexByDraft favs nm pl = None) =
      (trim nm = [] \<or> trim pl = [] \<or>
       (\<forall>j < length favs. \<not> favoriteMatchesDraft (favs ! j) nm pl)))"
proof
  show "(findFavoriteIndexByDraft favs nm pl = Some i) =
     (trim nm \<noteq> [] \<and> trim pl \<noteq> [] \<and>
      i < length favs \<and> favoriteMatchesDraft (favs ! i) nm pl \<and>
      (\<forall>j < i. \<not> favoriteMatchesDraft (favs ! j) nm pl))"
    using findFrom_0_Some_iff[of favs nm pl i]
    by (simp add: findFavoriteIndexByDraft_def)
  show "(findFavoriteIndexByDraft favs nm pl = None) =
     (trim nm = [] \<or> trim pl = [] \<or>
      (\<forall>j < length favs. \<not> favoriteMatchesDraft (favs ! j) nm pl))"
    using findFrom_None[of 0 favs nm pl]
    by (simp add: findFavoriteIndexByDraft_def)
qed

text \<open>
  Dad, Mom and Mom once more: a draft for Mom, written in capitals and with spaces, finds
  index 1, and the favorite before it does not match.
\<close>

theorem C7_first_match_witness:
  "findFavoriteIndexByDraft [favorite_dad, favorite_mom, favorite_mom_again] ''MOM'' ''ab 12 cd''
     = Some 1 \<and>
   favoriteMatchesDraft ([favorite_dad, favorite_mom, favorite_mom_again] ! 1) ''MOM'' ''ab 12 cd'' \<and>
   \<not> favoriteMatchesDraft ([favorite_dad, favorite_mom, favorite_mom_again] ! 0)
       ''MOM'' ''ab 12 cd''"
proof -
  have "findFavoriteIndexByDraft [favorite_dad, favorite_mom, favorite_mom_again]
          ''MOM'' ''ab 12 cd'' = Some 1"
    by code_simp
  with C7_first_match [of "[favorite_dad, favorite_mom, favorite_mom_again]" "''MOM''"
      "''ab 12 cd''" 1]
  show ?thesis by blast
qed

text \<open>
  The claim as it is written fails for a name of one space and a favorite without a name:
  both draft fields are non-empty, the favorite at index 0 has the draft's normalized name
  and plate, and the function returns none.
\<close>

theorem C7_counterexample:
  "'' '' \<noteq> [] \<and> ''AB12CD'' \<noteq> [] \<and>
   favoriteMatchesDraft ([favorite_without_name] ! 0) '' '' ''AB12CD'' \<and>
   findFavoriteIndexByDraft [favorite_without_name] '' '' ''AB12CD'' = None"
  by code_simp

text \<open>
  C9, as amended. The claim reads: \<open>findMatchingIndex\<close> applied to the name and plate of the
  favorite at index \<open>i\<close> returns \<open>i\<close>. The function returns the first match, and none for a
  blank field: for every index \<open>i\<close> whose favorite has a name and a plate that are non-empty
  after trimming, the function applied to that favorite's name and plate returns the smallest
  index \<open>j \<le> i\<close> whose favorite has the same normalized name and plate, and it returns \<open>i\<close>
  itself exactly when no favorite before \<open>i\<close> has the same normalized name and plate.
\<close>

theorem C9_reflexive_up_to_first_match:
  assumes "i < length favs"
    and "trim (or_empty (name (favs ! i))) \<noteq> []"
    and "trim (or_empty (license_plate (favs ! i))) \<noteq> []"
  shows "(\<exists>j \<le> i.
            findFavoriteIndexByDraft favs (or_empty (name (favs ! i)))
              (or_empty (license_plate (favs ! i))) = Some j \<and>
            favoriteMatchesDraft (favs ! j) (or_empty (name (favs ! i)))
              (or_empty (license_plate (favs ! i))) \<and>
            (\<forall>k < j. \<not> favoriteMatchesDraft (favs ! k) (or_empty (name (favs ! i)))
                         (or_empty (license_plate (favs ! i))))) \<and>
         ((findFavoriteIndexByDraft favs (or_empty (name (favs ! i)))
             (or_empty (license_plate (favs ! i))) = Some i) =
          (\<forall>k < i. \<not> favoriteMatchesDraft (favs ! k) (or_empty (name (favs ! i)))
                       (or_empty (license_plate (favs ! i)))))"
proof -
  let ?nm = "or_empty (name (favs ! i))" and ?pl = "or_empty (license_plate (favs ! i))"
  let ?M = "\<lambda>k. favoriteMatchesDraft (favs ! k) ?nm ?pl"
  have find: "findFavoriteIndexByDraft favs ?nm ?pl = findFrom 0 favs ?nm ?pl"
    using assms(2,3) by (simp add: findFavoriteIndexByDraft_def)
  have self: "?M i" by (rule favoriteMatchesDraft_self)
  with assms(1) have "findFrom 0 favs ?nm ?pl \<noteq> None"
    using findFrom_None[of 0 favs ?nm ?pl] by auto
  then obtain j where j: "findFrom 0 favs ?nm ?pl = Some j" by auto
  from findFrom_Some[OF j] have jm: "?M j" and first: "\<forall>k < j. \<not> ?M k" by auto
  have "j \<le> i"
  proof (rule ccontr)
    assume "\<not> j \<le> i"
    then have "i < j" by simp
    with first self show False by blast
  qed
  with j jm first find have ex: "\<exists>j \<le> i. findFavoriteIndexByDraft favs ?nm ?pl = Some j \<and>
      ?M j \<and> (\<forall>k < j. \<not> ?M k)" by auto
  have "(findFavoriteIndexByDraft favs ?nm ?pl = Some i) = (\<forall>k < i. \<not> ?M k)"
    using find findFrom_0_Some_iff[of favs ?nm ?pl i] assms(1) self by simp
  with ex show ?thesis by blast
qed

text \<open>Dad at index 0 and Mom at index 1: each is found at its own index.\<close>

theorem C9_reflexive_up_to_first_match_witness:
  "(1::nat) < length [favorite_dad, favorite_mom] \<and>
   trim (or_empty (name ([favorite_dad, favorite_mom] ! 1))) \<noteq> [] \<and>
   trim (or_empty (license_plate ([favorite_dad, favorite_mom] ! 1))) \<noteq> [] \<and>
   findFavoriteIndexByDraft [favorite_dad, favorite_mom]
     (or_empty (name ([favorite_dad, favorite_mom] ! 1)))
     (or_empty (license_plate ([favorite_dad, favorite_mom] ! 1))) = Some 1"
proof -
  have a: "(1::nat) < length [favorite_dad, favorite_mom]" by simp
  have b: "trim (or_empty (name ([favorite_dad, favorite_mom] ! 1))) \<noteq> []" by code_simp
  have c: "trim (or_empty (license_plate ([favorite_dad, favorite_mom] ! 1))) \<noteq> []" by code_simp
  have d: "\<forall>k < (1::nat). \<not> favoriteMatchesDraft ([favorite_dad, favorite_mom] ! k)
              (or_empty (name ([favorite_dad, favorite_mom] ! 1)))
              (or_empty (license_plate ([favorite_dad, favorite_mom] ! 1)))"
  proof (intro allI impI)
    fix k :: nat assume "k < 1"
    then have k: "k = 0" by simp
    have "\<not> favoriteMatchesDraft ([favorite_dad, favorite_mom] ! 0)
              (or_empty (name ([favorite_dad, favorite_mom] ! 1)))
              (or_empty (license_plate ([favorite_dad, favorite_mom] ! 1)))"
      by code_simp
    with k show "\<not> favoriteMatchesDraft ([favorite_dad, favorite_mom] ! k)
              (or_empty (name ([favorite_dad, favorite_mom] ! 1)))
              (or_empty (license_plate ([favorite_dad, favorite_mom] ! 1)))"
      by simp
  qed
  from C9_reflexive_up_to_first_match [OF a b c] d a b c show ?thesis by blast
qed

text \<open>
  The claim as it is written fails where an earlier favorite has the same normalized name
  and plate: the favorite at index 1 is found at index 0.
\<close>

theorem C9_counterexample:
  "\<not> (findFavoriteIndexByDraft [favorite_mom, favorite_mom_again]
         (or_empty (name ([favorite_mom, favorite_mom_again] ! 1)))
         (or_empty (license_plate ([favorite_mom, favorite_mom_again] ! 1))) = Some 1)"
  by code_simp

text \<open>
  C8. For every favorites list, a selected index that is negative, at least the length of
  the list, or not a number yields the same derived state (selected index, selected favorite,
  its id, and the flags for add, update and delete) as no selection at all, which is the
  empty selector value. None of the getters has a failing branch.
\<close>

theorem C8_out_of_range_is_no_selection:
  assumes "N (favoriteDraft s) = NaN \<or> N (favoriteDraft s) = PosInfinity \<or>
           N (favoriteDraft s) = NegInfinity \<or>
           (\<exists>q. N (favoriteDraft s) = Finite q \<and> (q < 0 \<or> of_nat (length favs) \<le> q))"
  shows "selectedFavoriteIndex N favs s = None \<and>
         selectedFavoriteIndex N favs (s\<lparr>favoriteDraft := []\<rparr>) = None \<and>
         selectedFavorite N favs s = selectedFavorite N favs (s\<lparr>favoriteDraft := []\<rparr>) \<and>
         selectedFavoriteId N favs s = selectedFavoriteId N favs (s\<lparr>favoriteDraft := []\<rparr>) \<and>
         showAddToFavorites N favs s = showAddToFavorites N favs (s\<lparr>favoriteDraft := []\<rparr>) \<and>
         offerUpdateFavorite N favs s = offerUpdateFavorite N favs (s\<lparr>favoriteDraft := []\<rparr>) \<and>
         canUpdateFavorite N favs s = canUpdateFavorite N favs (s\<lparr>favoriteDraft := []\<rparr>) \<and>
         showDeleteFavorite N favs s = showDeleteFavorite N favs (s\<lparr>favoriteDraft := []\<rparr>)"
proof -
  let ?t = "s\<lparr>favoriteDraft := []\<rparr>"
  have i: "selectedFavoriteIndex N favs s = None"
    using assms by (auto simp: selectedFavoriteIndex_def)
  have i': "selectedFavoriteIndex N favs ?t = None"
    by (simp add: selectedFavoriteIndex_def)
  have f: "selectedFavorite N favs s = None" "selectedFavorite N favs ?t = None"
    using i i' by (simp_all add: selectedFavorite_def)
  have d: "selectedFavoriteId N favs s = None" "selectedFavoriteId N favs ?t = None"
    using f by (simp_all add: selectedFavoriteId_def)
  have m: "draftMatchesExistingFavorite favs ?t = draftMatchesExistingFavorite favs s"
    by (simp add: draftMatchesExistingFavorite_def)
  have a: "showAddToFavorites N favs s = showAddToFavorites N favs ?t"
    using f m by (simp add: showAddToFavorites_def)
  have u: "offerUpdateFavorite N favs s = False" "offerUpdateFavorite N favs ?t = False"
    using f by (simp_all add: offerUpdateFavorite_def)
  have c: "canUpdateFavorite N favs s = canUpdateFavorite N favs ?t"
    using u by (simp add: canUpdateFavorite_def)
  have x: "showDeleteFavorite N favs s = showDeleteFavorite N favs ?t"
    using d by (simp add: showDeleteFavorite_def)
  from i i' f d a u c x show ?thesis by simp
qed

text \<open>One favorite, and the selector values 7 and -1: both are as no selection.\<close>

theorem C8_out_of_range_is_no_selection_witness:
  "(\<exists>q. Number_decimal (favoriteDraft (draft ''7'' ''Mom'' ''AB-12-CD'')) = Finite q \<and>
        (q < 0 \<or> of_nat (length [favorite_mom]) \<le> q)) \<and>
   (\<exists>q. Number_decimal (favoriteDraft (draft ''-1'' ''Mom'' ''AB-12-CD'')) = Finite q \<and>
        (q < 0 \<or> of_nat (length [favorite_mom]) \<le> q)) \<and>
   selectedFavorite Number_decimal [favorite_mom] (draft ''7'' ''Mom'' ''AB-12-CD'') =
     selectedFavorite Number_decimal [favorite_mom]
       ((draft ''7'' ''Mom'' ''AB-12-CD'')\<lparr>favoriteDraft := []\<rparr>) \<and>
   showDeleteFavorite Number_decimal [favorite_mom] (draft ''-1'' ''Mom'' ''AB-12-CD'') =
     showDeleteFavorite Number_decimal [favorite_mom]
       ((draft ''-1'' ''Mom'' ''AB-12-CD'')\<lparr>favoriteDraft := []\<rparr>)"
proof -
  have a: "Number_decimal (favoriteDraft (draft ''7'' ''Mom'' ''AB-12-CD'')) = Finite 7"
    by code_simp
  have b: "Number_decimal (favoriteDraft (draft ''-1'' ''Mom'' ''AB-12-CD'')) = Finite (- 1)"
    by code_simp
  have a': "\<exists>q. Number_decimal (favoriteDraft (draft ''7'' ''Mom'' ''AB-12-CD'')) = Finite q \<and>
        (q < 0 \<or> of_nat (length [favorite_mom]) \<le> q)"
    using a by simp
  have b': "\<exists>q. Number_decimal (favoriteDraft (draft ''-1'' ''Mom'' ''AB-12-CD'')) = Finite q \<and>
        (q < 0 \<or> of_nat (length [favorite_mom]) \<le> q)"
    using b by simp
  from a' have a'': "Number_decimal (favoriteDraft (draft ''7'' ''Mom'' ''AB-12-CD'')) = NaN \<or>
      Number_decimal (favoriteDraft (draft ''7'' ''Mom'' ''AB-12-CD'')) = PosInfinity \<or>
      Number_decimal (favoriteDraft (draft ''7'' ''Mom'' ''AB-12-CD'')) = NegInfinity \<or>
      (\<exists>q. Number_decimal (favoriteDraft (draft ''7'' ''Mom'' ''AB-12-CD'')) = Finite q \<and>
        (q < 0 \<or> of_nat (length [favorite_mom]) \<le> q))"
    by blast
  from b' have b'': "Number_decimal (favoriteDraft (draft ''-1'' ''Mom'' ''AB-12-CD'')) = NaN \<or>
      Number_decimal (favoriteDraft (draft ''-1'' ''Mom'' ''AB-12-CD'')) = PosInfinity \<or>
      Number_decimal (favoriteDraft (draft ''-1'' ''Mom'' ''AB-12-CD'')) = NegInfinity \<or>
      (\<exists>q. Number_decimal (favoriteDraft (draft ''-1'' ''Mom'' ''AB-12-CD'')) = Finite q \<and>
        (q < 0 \<or> of_nat (length [favorite_mom]) \<le> q))"
    by blast
  from C8_out_of_range_is_no_selection
         [where N = Number_decimal and s = "draft ''7'' ''Mom'' ''AB-12-CD''"
            and favs = "[favorite_mom]", OF a'']
       C8_out_of_range_is_no_selection
         [where N = Number_decimal and s = "draft ''-1'' ''Mom'' ''AB-12-CD''"
            and favs = "[favorite_mom]", OF b'']
       a' b'
  show ?thesis by blast
qed


section \<open>Claims about the identifier and its resolution\<close>

lemma activeEntryId_registry_loaded [simp]:
  "activeEntryId (s\<lparr>entityRegistryLoaded := b\<rparr>) = activeEntryId s"
  by (simp add: activeEntryId_def configEntryId_def)

lemma entryIdentifier_registry_loaded [simp]:
  "entryIdentifier (s\<lparr>entityRegistryLoaded := b\<rparr>) e = entryIdentifier s e"
  by (simp add: entryIdentifier_def cong: option.case_cong if_cong)

text \<open>A cycle of a card whose entries are loaded leaves the first half to the registry.\<close>

lemma updated_entries_loaded:
  assumes "hass s = Some h" and "config s = Some c" and "entriesLoaded s"
  shows "\<exists>b fx. updated ch now s =
           resolveStep ch now h (trim (or_empty (favorites_entity c)))
             (s\<lparr>entityRegistryLoaded := b\<rparr>) fx \<and>
           (\<forall>x. ResolveIdFromConfigEntry x \<notin> set fx)"
proof -
  let ?R = "resolveStep ch now h (trim (or_empty (favorites_entity c)))"
  have same: "?R (s\<lparr>entityRegistryLoaded := entityRegistryLoaded s\<rparr>) = ?R s" by simp
  consider (loaded) "entityRegistryLoaded s"
    | (marked) "\<not> entityRegistryLoaded s" "\<not> user_is_admin h \<or> \<not> has_callWS h"
    | (fetched) "\<not> entityRegistryLoaded s" "user_is_admin h" "has_callWS h"
    by blast
  then show ?thesis
  proof cases
    case loaded
    with assms have "updated ch now s = ?R s []"
      by (simp add: updated_def startLoadEntries_def startLoadEntityRegistry_def)
    with same have "updated ch now s =
        ?R (s\<lparr>entityRegistryLoaded := entityRegistryLoaded s\<rparr>) [] \<and>
        (\<forall>x. ResolveIdFromConfigEntry x \<notin> set [])" by simp
    then show ?thesis by blast
  next
    case marked
    with assms have "updated ch now s = ?R (s\<lparr>entityRegistryLoaded := True\<rparr>) [] \<and>
        (\<forall>x. ResolveIdFromConfigEntry x \<notin> set [])"
      by (simp add: updated_def startLoadEntries_def startLoadEntityRegistry_def)
    then show ?thesis by blast
  next
    case fetched
    with assms have "updated ch now s = ?R s [LoadEntityRegistry]"
      by (simp add: updated_def startLoadEntries_def startLoadEntityRegistry_def)
    with same have "updated ch now s =
        ?R (s\<lparr>entityRegistryLoaded := entityRegistryLoaded s\<rparr>) [LoadEntityRegistry] \<and>
        (\<forall>x. ResolveIdFromConfigEntry x \<notin> set [LoadEntityRegistry])" by simp
    then show ?thesis by blast
  qed
qed

text \<open>An entry of the list with a usable identifier is resolved by the cycle itself.\<close>

lemma updated_local_identifier:
  assumes "hass s = Some h" and "config s = Some c" and "entriesLoaded s"
    and "trim (or_empty (favorites_entity c)) = []"
    and "activeEntryId s = Some e" and "e \<noteq> []"
    and "find (\<lambda>item. entry_id item = e) (entries s) = Some entry"
    and "resolveIdentifierFromEntry entry \<noteq> []"
  shows "resolvedIdentifier (fst (updated ch now s)) = Some (resolveIdentifierFromEntry entry) \<and>
         resolvedConfigEntryId (fst (updated ch now s)) = Some e \<and>
         (\<forall>x. ResolveIdFromConfigEntry x \<notin> set (snd (updated ch now s)))"
proof -
  from updated_entries_loaded[OF assms(1,2,3), of ch now] obtain b fx where
    u: "updated ch now s = resolveStep ch now h (trim (or_empty (favorites_entity c)))
          (s\<lparr>entityRegistryLoaded := b\<rparr>) fx"
    and fx: "\<forall>x. ResolveIdFromConfigEntry x \<notin> set fx" by blast
  have i: "entryIdentifier s (Some e) = Some (resolveIdentifierFromEntry entry)"
    using assms(6,7) by (simp add: entryIdentifier_def)
  have "resolveStep ch now h [] (s\<lparr>entityRegistryLoaded := b\<rparr>) fx =
          (s\<lparr>entityRegistryLoaded := b,
             resolvedIdentifier := Some (resolveIdentifierFromEntry entry),
             resolvedConfigEntryId := Some e\<rparr>, fx)"
    using assms(5,6,8) i by (simp add: resolveStep_def)
  with u assms(4) fx show ?thesis by simp
qed

text \<open>
  C6, as amended. The claim reads: the resolved identifier is the declared identifier
  (\<open>unique_id\<close>) when present, otherwise the identifier parsed from the title, otherwise the
  entry's own handle, and an account with a declared identifier resolves without external
  lookup. The function trims the declared identifier and passes over the text \<open>none\<close>: the
  resolved identifier is the declared identifier with the white space around it removed,
  when that is non-empty and is not the word \<open>none\<close> in any letter case; otherwise it is the
  identifier parsed from the trailing parenthetical of the title; otherwise the entry's own
  handle. An evaluation cycle of a card whose active entry is in its loaded list of entries,
  with a non-empty resolved identifier and no favorites entity configured, caches that
  identifier and starts no external lookup.
\<close>

theorem C6_identifier_preference:
  "(\<forall>u. unique_id entry = Some u \<and> trim u \<noteq> [] \<and> toLowerCase (trim u) \<noteq> ''none'' \<longrightarrow>
        resolveIdentifierFromEntry entry = trim u) \<and>
   ((unique_id entry = None \<or>
     (\<exists>u. unique_id entry = Some u \<and> (trim u = [] \<or> toLowerCase (trim u) = ''none''))) \<longrightarrow>
      (\<forall>i. parseIdFromTitle (title entry) = Some i \<longrightarrow> resolveIdentifierFromEntry entry = i) \<and>
      (parseIdFromTitle (title entry) = None \<longrightarrow> resolveIdentifierFromEntry entry = entry_id entry)) \<and>
   (hass s = Some h \<and> config s = Some c \<and> entriesLoaded s \<and>
    trim (or_empty (favorites_entity c)) = [] \<and>
    activeEntryId s = Some e \<and> e \<noteq> [] \<and>
    find (\<lambda>item. entry_id item = e) (entries s) = Some entry \<and>
    resolveIdentifierFromEntry entry \<noteq> [] \<longrightarrow>
      resolvedIdentifier (fst (updated ch now s)) = Some (resolveIdentifierFromEntry entry) \<and>
      resolvedConfigEntryId (fst (updated ch now s)) = Some e \<and>
      (\<forall>x. ResolveIdFromConfigEntry x \<notin> set (snd (updated ch now s))))"
proof (intro conjI)
  show "\<forall>u. unique_id entry = Some u \<and> trim u \<noteq> [] \<and> toLowerCase (trim u) \<noteq> ''none'' \<longrightarrow>
          resolveIdentifierFromEntry entry = trim u"
    by (simp add: resolveIdentifierFromEntry_def)
  show "(unique_id entry = None \<or>
     (\<exists>u. unique_id entry = Some u \<and> (trim u = [] \<or> toLowerCase (trim u) = ''none''))) \<longrightarrow>
      (\<forall>i. parseIdFromTitle (title entry) = Some i \<longrightarrow> resolveIdentifierFromEntry entry = i) \<and>
      (parseIdFromTitle (title entry) = None \<longrightarrow> resolveIdentifierFromEntry entry = entry_id entry)"
    by (auto simp: resolveIdentifierFromEntry_def)
  show "hass s = Some h \<and> config s = Some c \<and> entriesLoaded s \<and>
    trim (or_empty (favorites_entity c)) = [] \<and>
    activeEntryId s = Some e \<and> e \<noteq> [] \<and>
    find (\<lambda>item. entry_id item = e) (entries s) = Some entry \<and>
    resolveIdentifierFromEntry entry \<noteq> [] \<longrightarrow>
      resolvedIdentifier (fst (updated ch now s)) = Some (resolveIdentifierFromEntry entry) \<and>
      resolvedConfigEntryId (fst (updated ch now s)) = Some e \<and>
      (\<forall>x. ResolveIdFromConfigEntry x \<notin> set (snd (updated ch now s)))"
    using updated_local_identifier[of s h c e entry ch now] by blast
qed

text \<open>
  The one entry with the declared identifier 42: it resolves to 42, and the cycle of the
  card caches 42 and starts nothing.
\<close>

theorem C6_identifier_preference_witness:
  "unique_id entry_declared = Some ''42'' \<and>
   resolveIdentifierFromEntry entry_declared = ''42'' \<and>
   activeEntryId card_one_entry = Some ''e1'' \<and>
   resolvedIdentifier (fst (updated None 0 card_one_entry)) = Some ''42'' \<and>
   resolvedConfigEntryId (fst (updated None 0 card_one_entry)) = Some ''e1'' \<and>
   snd (updated None 0 card_one_entry) = []"
proof -
  have u: "unique_id entry_declared = Some ''42''" by code_simp
  have t: "trim ''42'' = ''42''" "toLowerCase (trim ''42'') \<noteq> ''none''" by code_simp+
  have r: "resolveIdentifierFromEntry entry_declared = ''42''"
    using C6_identifier_preference [of entry_declared card_one_entry admin_host
        "card_config ''Parking'' None" "''e1''" None 0] u t
    by simp
  have h: "hass card_one_entry = Some admin_host" by (simp add: card_one_entry_def initialCard_def)
  have c: "config card_one_entry = Some (card_config ''Parking'' None)"
    by (simp add: card_one_entry_def initialCard_def)
  have l: "entriesLoaded card_one_entry" by (simp add: card_one_entry_def initialCard_def)
  have f: "trim (or_empty (favorites_entity (card_config ''Parking'' None))) = []" by code_simp
  have a: "activeEntryId card_one_entry = Some ''e1''" by code_simp
  have n: "find (\<lambda>item. entry_id item = ''e1'') (entries card_one_entry) = Some entry_declared"
    by code_simp
  have x: "snd (updated None 0 card_one_entry) = []" by code_simp
  from C6_identifier_preference [of entry_declared card_one_entry admin_host
        "card_config ''Parking'' None" "''e1''" None 0] h c l f a n r u x
  show ?thesis by simp
qed

text \<open>
  The claim as it is written fails for the declared identifier None: it is present, and the
  entry resolves to the identifier of its title.
\<close>

theorem C6_counterexample:
  "unique_id entry_none_text = Some ''None'' \<and>
   resolveIdentifierFromEntry entry_none_text \<noteq> ''None'' \<and>
   resolveIdentifierFromEntry entry_none_text = ''123''"
  by code_simp


text \<open>
  What the cooldown does when the cycle sees no replaced configuration, or one whose
  previous value pinned the active entry: a lookup for the entry of the last attempt starts
  only more than 30000 milliseconds after that attempt.
\<close>

lemma resolveStep_cooldown:
  assumes "resolveStep ch now h fe s fx0 = (s', fx)"
    and "ResolveIdFromConfigEntry e \<in> set fx" and "ResolveIdFromConfigEntry e \<notin> set fx0"
    and "lastResolveEntryId s = Some e" and "lastResolveAttempt s = Some t"
    and "ch = None \<or> (\<exists>p. ch = Some (Some p) \<and> config_entry_id p = Some e)"
  shows "now - t > 30000"
proof (cases "activeEntryId s")
  case None
  with assms(1,2,3) show ?thesis by (simp add: resolveStep_def)
next
  case (Some a)
  show ?thesis
  proof (rule ccontr)
    assume late: "\<not> now - t > 30000"
    have "fx = fx0 \<or> (fx = fx0 @ [ResolveIdFromConfigEntry a])"
      using assms(1) Some
      by (auto simp: resolveStep_def Let_def split: if_splits option.splits)
    with assms(2,3) have a: "a = e" and fx: "fx = fx0 @ [ResolveIdFromConfigEntry a]" by auto
    from assms(6) a have unchanged:
      "\<not> (ch \<noteq> None \<and> (case ch of Some (Some p) \<Rightarrow> config_entry_id p | _ \<Rightarrow> None) \<noteq> Some a)"
      by auto
    have "fx = fx0"
      using assms(1,4,5) Some a unchanged late
      by (auto simp: resolveStep_def Let_def split: if_splits option.splits)
    with fx show False by simp
  qed
qed

lemma updated_cooldown:
  assumes "updated ch now s = (s', fx)"
    and "ResolveIdFromConfigEntry e \<in> set fx"
    and "lastResolveEntryId s = Some e" and "lastResolveAttempt s = Some t"
    and "ch = None \<or> (\<exists>p. ch = Some (Some p) \<and> config_entry_id p = Some e)"
  shows "now - t > 30000"
proof -
  from assms(1,2) obtain h c where h: "hass s = Some h" and c: "config s = Some c"
    by (auto simp: updated_def split: option.splits)
  obtain s1 fx1 where l1: "startLoadEntries h s = (s1, fx1)" by (cases "startLoadEntries h s")
  obtain s2 fx2 where l2: "startLoadEntityRegistry h s1 = (s2, fx2)"
    by (cases "startLoadEntityRegistry h s1")
  from l1 have k1: "lastResolveEntryId s1 = lastResolveEntryId s"
      "lastResolveAttempt s1 = lastResolveAttempt s" "ResolveIdFromConfigEntry e \<notin> set fx1"
    by (auto simp: startLoadEntries_def split: if_splits)
  from l2 have k2: "lastResolveEntryId s2 = lastResolveEntryId s1"
      "lastResolveAttempt s2 = lastResolveAttempt s1" "ResolveIdFromConfigEntry e \<notin> set fx2"
    by (auto simp: startLoadEntityRegistry_def split: if_splits)
  have r: "resolveStep ch now h (trim (or_empty (favorites_entity c))) s2 (fx1 @ fx2) = (s', fx)"
    using assms(1) h c l1 l2 by (simp add: updated_def)
  show ?thesis
  proof (rule resolveStep_cooldown[OF r assms(2)])
    show "ResolveIdFromConfigEntry e \<notin> set (fx1 @ fx2)" using k1(3) k2(3) by simp
    show "lastResolveEntryId s2 = Some e" using k1(1) k2(1) assms(3) by simp
    show "lastResolveAttempt s2 = Some t" using k1(2) k2(2) assms(4) by simp
    show "ch = None \<or> (\<exists>p. ch = Some (Some p) \<and> config_entry_id p = Some e)" by (rule assms(5))
  qed
qed

text \<open>An evaluation cycle leaves the draft, the selection and the two toggles as they are.\<close>

lemma resolveStep_draftState: "draftState (fst (resolveStep ch now h fe s fx)) = draftState s"
  by (auto simp: resolveStep_def draftState_def Let_def split: option.splits)

lemma updated_draftState: "draftState (fst (updated ch now s)) = draftState s"
proof (cases "hass s")
  case None
  then show ?thesis by (simp add: updated_def)
next
  case (Some h)
  show ?thesis
  proof (cases "config s")
    case None
    with Some show ?thesis by (simp add: updated_def)
  next
    case c: (Some c)
    obtain s1 fx1 where l1: "startLoadEntries h s = (s1, fx1)" by (cases "startLoadEntries h s")
    obtain s2 fx2 where l2: "startLoadEntityRegistry h s1 = (s2, fx2)"
      by (cases "startLoadEntityRegistry h s1")
    from l1 have d1: "draftState s1 = draftState s"
      by (auto simp: startLoadEntries_def draftState_def split: if_splits)
    from l2 have d2: "draftState s2 = draftState s1"
      by (auto simp: startLoadEntityRegistry_def draftState_def split: if_splits)
    have "updated ch now s =
            resolveStep ch now h (trim (or_empty (favorites_entity c))) s2 (fx1 @ fx2)"
      using Some c l1 l2 by (simp add: updated_def)
    with d1 d2 show ?thesis by (simp add: resolveStep_draftState)
  qed
qed

text \<open>The picker's path resets the draft, the selection, the toggles and the resolution state.\<close>

lemma setSelectedEntry_resets:
  "draftState (setSelectedEntry e s) = ([], [], [], False, False) \<and>
   resolvedConfigEntryId (setSelectedEntry e s) = None \<and>
   resolvedIdentifier (setSelectedEntry e s) = None \<and>
   lastResolveAttempt (setSelectedEntry e s) = None \<and>
   lastResolveEntryId (setSelectedEntry e s) = None \<and>
   selectedEntryId (setSelectedEntry e s) = e"
  by (simp add: setSelectedEntry_def draftState_def)

text \<open>
  C4. The claim: while the active account stays the same, no second identity-resolution
  attempt is started within the cooldown of 30 seconds after the previous attempt for that
  account. The card starts one: with the entry A selected in the picker and missing from the
  list of entries, the cycle after an edit of the card's title takes the replaced
  configuration for a change of entry, forgets what it knew of A, and starts a lookup for A
  at time 1000, which fails; the cycle after the next edit, at time 11000, does the same and
  starts a second lookup for A, 10 seconds after the first. A cycle at that time without a
  replaced configuration starts none.
\<close>

theorem C4_second_attempt_within_cooldown:
  "activeEntryId card_selected_A = Some ''A'' \<and>
   activeEntryId card_first_edit = Some ''A'' \<and>
   snd (updated (Some (Some (card_config ''Parking'' None))) 1000 card_first_edit) =
     [ResolveIdFromConfigEntry ''A''] \<and>
   lastResolveAttempt card_lookup_failed = Some 1000 \<and>
   lastResolveEntryId card_lookup_failed = Some ''A'' \<and>
   \<not> resolvingService card_lookup_failed \<and>
   activeEntryId card_lookup_failed = Some ''A'' \<and>
   activeEntryId card_second_edit = Some ''A'' \<and>
   snd (updated (Some (Some (card_config ''Parking 1'' None))) 11000 card_second_edit) =
     [ResolveIdFromConfigEntry ''A''] \<and>
   snd (updated None 11000 card_lookup_failed) = []"
  by code_simp

theorem C4_second_attempt_within_cooldown_witness:
  "ResolveIdFromConfigEntry ''A'' \<in>
     set (snd (updated (Some (Some (card_config ''Parking 1'' None))) 11000 card_second_edit)) \<and>
   (11000::int) - 1000 \<le> 30000"
  using C4_second_attempt_within_cooldown by simp

text \<open>
  C5. The claim: whenever the active account changes, for any cause, the draft name and
  plate, the favorite selection, the cached identity and the retry timer are all reset. The
  card does so when the picker changes the account. When the configuration changes it, from
  the pinned entry A to the pinned entry B, the next cycle resets the cached identity and
  the timer and leaves the draft of account A in place: name, plate, selected index and
  update toggle.
\<close>

theorem C5_config_change_keeps_draft:
  "activeEntryId card_pinned_A = Some ''A'' \<and>
   activeEntryId card_repinned_B = Some ''B'' \<and>
   draftState card_repinned_B = (''Mom'', ''XY-99-ZZ'', ''0'', False, True) \<and>
   draftState (fst (updated (Some (Some (card_config ''Parking'' (Some ''A'')))) 5000
                      card_repinned_B)) = (''Mom'', ''XY-99-ZZ'', ''0'', False, True) \<and>
   draftState (setSelectedEntry (Some ''B'') card_pinned_A) = ([], [], [], False, False)"
  by code_simp

theorem C5_config_change_keeps_draft_witness:
  "nameDraft (fst (updated (Some (Some (card_config ''Parking'' (Some ''A'')))) 5000
                     card_repinned_B)) = ''Mom'' \<and>
   favoriteDraft (fst (updated (Some (Some (card_config ''Parking'' (Some ''A'')))) 5000
                     card_repinned_B)) = ''0''"
  using C5_config_change_keeps_draft by (simp add: draftState_def)


section \<open>Claim about rejected service calls\<close>

lemma deleteFavorite_rejected:
  assumes "CallService call \<in> set (snd (deleteFavorite N favs favs' svc s))" and "\<not> svc call"
  shows "Notify ''new_reservation_card.could_not_remove_favorite''
           \<in> set (snd (deleteFavorite N favs favs' svc s)) \<and>
         draftState (fst (deleteFavorite N favs favs' svc s)) = draftState s"
  using assms
  by (auto simp: deleteFavorite_def Let_def draftState_def split: if_splits option.splits)

lemma followUp_rejected:
  assumes "followUp u a sid lp svc s = (s2, fx)" and "CallService call \<in> set fx" and "\<not> svc call"
  shows "case call of
           UpdateFavorite _ _ _ _ \<Rightarrow> Notify ''new_reservation_card.could_not_update_favorite'' \<in> set fx
         | CreateFavorite _ _ _ \<Rightarrow> Notify ''new_reservation_card.could_not_save_favorite'' \<in> set fx
         | _ \<Rightarrow> False"
  using assms
  by (auto simp: followUp_def Let_def split: if_splits)

lemma submit_rejected:
  assumes "CallService call \<in> set (snd (submit N favs svc s))" and "\<not> svc call"
  shows "case call of
           CreateReservation _ _ _ \<Rightarrow>
             Notify ''new_reservation_card.could_not_submit'' \<in> set (snd (submit N favs svc s)) \<and>
             draftState (fst (submit N favs svc s)) = draftState s
         | UpdateFavorite _ _ _ _ \<Rightarrow>
             Notify ''new_reservation_card.could_not_update_favorite''
               \<in> set (snd (submit N favs svc s)) \<and>
             draftState (fst (submit N favs svc s)) = ([], [], [], False, False)
         | CreateFavorite _ _ _ \<Rightarrow>
             Notify ''new_reservation_card.could_not_save_favorite''
               \<in> set (snd (submit N favs svc s)) \<and>
             draftState (fst (submit N favs svc s)) = ([], [], [], False, False)
         | DeleteFavorite _ _ \<Rightarrow> False"
proof -
  let ?lp = "trim (licensePlateDraft s)"
  let ?s1 = "s\<lparr>submitting := True\<rparr>"
  let ?res = "CreateReservation ?lp
                (if trim (nameDraft ?s1) \<noteq> [] then Some (trim (nameDraft ?s1)) else None)
                (entryArgument ?s1)"
  let ?sid = "selectedFavoriteId N favs s"
  let ?u = "truthy ?sid \<and> updateFavorite s \<and> canUpdateFavorite N favs s \<and>
            selectedFavoriteChanged N favs s"
  let ?a = "addToFavorites s \<and> showAddToFavorites N favs s"
  from assms(1) have g: "hass s \<noteq> None" "config s \<noteq> None" "\<not> entrySelectionMissing s" "?lp \<noteq> []"
    by (auto simp: submit_def Let_def split: if_splits)
  show ?thesis
  proof (cases "svc ?res")
    case False
    with g have e: "submit N favs svc s =
        (?s1\<lparr>submitting := False\<rparr>,
         [CallService ?res, Notify ''new_reservation_card.could_not_submit''])"
      by (simp add: submit_def Let_def)
    with assms(1) have "call = ?res" by simp
    then show ?thesis using e by (simp add: draftState_def)
  next
    case True
    obtain s2 fx where f: "followUp ?u ?a ?sid ?lp svc ?s1 = (s2, fx)"
      by (cases "followUp ?u ?a ?sid ?lp svc ?s1")
    with g True have e: "submit N favs svc s =
        (s2\<lparr>favoriteDraft := [], nameDraft := [], licensePlateDraft := [],
            addToFavorites := False, updateFavorite := False, submitting := False\<rparr>,
         CallService ?res # fx)"
      by (simp add: submit_def Let_def)
    from assms e True have "CallService call \<in> set fx" by auto
    from followUp_rejected[OF f this assms(2)] e show ?thesis
      by (cases call) (simp_all add: draftState_def)
  qed
qed

text \<open>
  C10, as amended. The claim reads: whenever a create, update or delete call rejects, a
  notification is emitted and the draft state (name, plate, favorite selection, toggles) is
  left unchanged by the failed call. The card clears the form once the reservation exists:
  whenever such a call rejects, a notification is emitted; the draft state is left unchanged
  when the rejected call is \<open>delete_favorite\<close> or \<open>create_reservation\<close>; when the
  reservation was created and the follow-up \<open>update_favorite\<close> or \<open>create_favorite\<close>
  rejects, the draft state is cleared as after a submission without failure.
\<close>

theorem C10_rejected_call:
  "(CallService call \<in> set (snd (deleteFavorite N favs favs' svc s)) \<and> \<not> svc call \<longrightarrow>
      Notify ''new_reservation_card.could_not_remove_favorite''
        \<in> set (snd (deleteFavorite N favs favs' svc s)) \<and>
      draftState (fst (deleteFavorite N favs favs' svc s)) = draftState s) \<and>
   (CallService call \<in> set (snd (submit N favs svc s)) \<and> \<not> svc call \<longrightarrow>
      (case call of
         CreateReservation _ _ _ \<Rightarrow>
           Notify ''new_reservation_card.could_not_submit'' \<in> set (snd (submit N favs svc s)) \<and>
           draftState (fst (submit N favs svc s)) = draftState s
       | UpdateFavorite _ _ _ _ \<Rightarrow>
           Notify ''new_reservation_card.could_not_update_favorite''
             \<in> set (snd (submit N favs svc s)) \<and>
           draftState (fst (submit N favs svc s)) = ([], [], [], False, False)
       | CreateFavorite _ _ _ \<Rightarrow>
           Notify ''new_reservation_card.could_not_save_favorite''
             \<in> set (snd (submit N favs svc s)) \<and>
           draftState (fst (submit N favs svc s)) = ([], [], [], False, False)
       | DeleteFavorite _ _ \<Rightarrow> False))"
  using deleteFavorite_rejected[of call N favs favs' svc s] submit_rejected[of call N favs svc s]
  by blast

text \<open>
  Mom selected and unchanged, and a host that rejects every call: the deletion is called,
  the notification is sent and the draft stays. With her plate edited and the update toggle
  set, the rejected reservation leaves the draft as well.
\<close>

theorem C10_rejected_call_witness:
  "CallService (DeleteFavorite ''1'' (Some ''A''))
     \<in> set (snd (deleteFavorite Number_decimal [favorite_mom] [favorite_mom] rejects_all
                   (card_pinned_A\<lparr>licensePlateDraft := ''AB-12-CD''\<rparr>))) \<and>
   \<not> rejects_all (DeleteFavorite ''1'' (Some ''A'')) \<and>
   draftState (fst (deleteFavorite Number_decimal [favorite_mom] [favorite_mom] rejects_all
                      (card_pinned_A\<lparr>licensePlateDraft := ''AB-12-CD''\<rparr>))) =
     draftState (card_pinned_A\<lparr>licensePlateDraft := ''AB-12-CD''\<rparr>) \<and>
   CallService (CreateReservation ''XY-99-ZZ'' (Some ''Mom'') (Some ''A''))
     \<in> set (snd (submit Number_decimal [favorite_mom] rejects_all card_pinned_A)) \<and>
   draftState (fst (submit Number_decimal [favorite_mom] rejects_all card_pinned_A)) =
     draftState card_pinned_A"
proof -
  have a: "CallService (DeleteFavorite ''1'' (Some ''A''))
     \<in> set (snd (deleteFavorite Number_decimal [favorite_mom] [favorite_mom] rejects_all
                   (card_pinned_A\<lparr>licensePlateDraft := ''AB-12-CD''\<rparr>)))"
    by code_simp
  have b: "\<not> rejects_all (DeleteFavorite ''1'' (Some ''A''))"
    by (simp add: rejects_all_def)
  have c: "CallService (CreateReservation ''XY-99-ZZ'' (Some ''Mom'') (Some ''A''))
     \<in> set (snd (submit Number_decimal [favorite_mom] rejects_all card_pinned_A))"
    by code_simp
  have d: "\<not> rejects_all (CreateReservation ''XY-99-ZZ'' (Some ''Mom'') (Some ''A''))"
    by (simp add: rejects_all_def)
  from C10_rejected_call [of "DeleteFavorite ''1'' (Some ''A'')" Number_decimal "[favorite_mom]"
         "[favorite_mom]" rejects_all "card_pinned_A\<lparr>licensePlateDraft := ''AB-12-CD''\<rparr>"]
       C10_rejected_call [of "CreateReservation ''XY-99-ZZ'' (Some ''Mom'') (Some ''A'')"
         Number_decimal "[favorite_mom]" "[favorite_mom]" rejects_all card_pinned_A]
       a b c d
  show ?thesis by simp
qed

text \<open>
  The claim as it is written fails when the reservation is created and the update of the
  favorite is rejected: the notification is sent, and the name, the plate, the selection
  and the toggle of the draft are cleared.
\<close>

theorem C10_counterexample:
  "CallService (UpdateFavorite ''1'' ''Mom'' ''XY-99-ZZ'' (Some ''A''))
     \<in> set (snd (submit Number_decimal [favorite_mom] reservations_only card_pinned_A)) \<and>
   \<not> reservations_only (UpdateFavorite ''1'' ''Mom'' ''XY-99-ZZ'' (Some ''A'')) \<and>
   Notify ''new_reservation_card.could_not_update_favorite''
     \<in> set (snd (submit Number_decimal [favorite_mom] reservations_only card_pinned_A)) \<and>
   draftState (fst (submit Number_decimal [favorite_mom] reservations_only card_pinned_A))
     \<noteq> draftState card_pinned_A"
  by code_simp

end
